theory Spec2Isabelle
  imports Main "HOL-Library.Multiset" "HOL-Library.Sublist" "HOL-Library.Word"
begin

section \<open>JavaScript string primitives used by the sources\<close>

text \<open>
  Strings are lists of characters. \<open>js_split sep s\<close> is \<^verbatim>\<open>s.split(sep)\<close> for a
  one-character separator: the pieces between the occurrences of the separator, in
  order; the result is never empty (\<^verbatim>\<open>"".split(".")\<close> is \<^verbatim>\<open>[""]\<close>).
\<close>

fun js_split :: "char \<Rightarrow> string \<Rightarrow> string list" where
  "js_split sep [] = [[]]"
| "js_split sep (c # cs) =
     (if c = sep then [] # js_split sep cs
      else (c # hd (js_split sep cs)) # tl (js_split sep cs))"

text \<open>
  \<^verbatim>\<open>toLowerCase()\<close> on the ASCII letters; every other character is left as it is
  (HOL characters are bytes, so the non-ASCII case folding of JavaScript is outside
  the model).
\<close>

definition toLowerCase_char :: "char \<Rightarrow> char" where
  "toLowerCase_char c =
     (case map_of (zip ''ABCDEFGHIJKLMNOPQRSTUVWXYZ'' ''abcdefghijklmnopqrstuvwxyz'') c of
        Some l \<Rightarrow> l
      | None \<Rightarrow> c)"

definition toLowerCase :: "string \<Rightarrow> string" where
  "toLowerCase s = map toLowerCase_char s"

section \<open>File classification (lib/utils: getFileType)\<close>

text \<open>The string-literal union \<^verbatim>\<open>FileType\<close> of the sources.\<close>

datatype FileType = Document | Image | Video | Audio | Other

record file_type =
  ft_type :: FileType
  ft_extension :: string

definition documentExtensions :: "string list" where
  "documentExtensions =
     [''pdf'', ''doc'', ''docx'', ''txt'', ''xls'', ''xlsx'', ''csv'', ''rtf'', ''ods'',
      ''ppt'', ''odp'', ''md'', ''html'', ''htm'', ''epub'', ''pages'', ''fig'', ''psd'',
      ''ai'', ''indd'', ''xd'', ''sketch'', ''afdesign'', ''afphoto'']"

definition imageExtensions :: "string list" where
  "imageExtensions = [''jpg'', ''jpeg'', ''png'', ''gif'', ''bmp'', ''svg'', ''webp'']"

definition videoExtensions :: "string list" where
  "videoExtensions = [''mp4'', ''avi'', ''mov'', ''mkv'', ''webm'']"

definition audioExtensions :: "string list" where
  "audioExtensions = [''mp3'', ''wav'', ''ogg'', ''flac'']"

text \<open>
  \<^verbatim>\<open>fileName.split(".").pop()?.toLowerCase()\<close>: the piece after the last dot, or
  the whole name when it has no dot. The array of pieces is never empty, so
  \<^verbatim>\<open>pop()\<close> is \<open>last\<close> and the optional chaining never yields \<^verbatim>\<open>undefined\<close>;
  \<^verbatim>\<open>!extension\<close> is then the test for the empty string.
\<close>

definition getFileType :: "string \<Rightarrow> file_type" where
  "getFileType fileName =
     (let extension = toLowerCase (last (js_split (CHR ''.'') fileName)) in
      if extension = [] then \<lparr>ft_type = Other, ft_extension = []\<rparr>
      else if extension \<in> set documentExtensions
        then \<lparr>ft_type = Document, ft_extension = extension\<rparr>
      else if extension \<in> set imageExtensions
        then \<lparr>ft_type = Image, ft_extension = extension\<rparr>
      else if extension \<in> set videoExtensions
        then \<lparr>ft_type = Video, ft_extension = extension\<rparr>
      else if extension \<in> set audioExtensions
        then \<lparr>ft_type = Audio, ft_extension = extension\<rparr>
      else \<lparr>ft_type = Other, ft_extension = extension\<rparr>)"

text \<open>
  \<^verbatim>\<open>constructFileUrl\<close> reads three variables of the process environment; they are
  parameters of the model.
\<close>

record process_env =
  NEXT_PUBLIC_APPWRITE_ENDPOINT :: string
  NEXT_PUBLIC_APPWRITE_BUCKET :: string
  NEXT_PUBLIC_APPWRITE_PROJECT :: string

definition constructFileUrl :: "process_env \<Rightarrow> string \<Rightarrow> string" where
  "constructFileUrl penv bucketFileId =
     NEXT_PUBLIC_APPWRITE_ENDPOINT penv @ ''/storage/buckets/'' @
     NEXT_PUBLIC_APPWRITE_BUCKET penv @ ''/files/'' @ bucketFileId @
     ''/view?project='' @ NEXT_PUBLIC_APPWRITE_PROJECT penv"

text \<open>
  \<^verbatim>\<open>parseStringify\<close> is a JSON round trip; on the plain data of the model (strings,
  numbers, arrays of strings) it returns its argument.
\<close>

definition parseStringify :: "'a \<Rightarrow> 'a" where
  "parseStringify v = v"

section \<open>The external services\<close>

text \<open>
  The object storage and the document database are services behind the SDK. The model
  keeps their contents in a \<open>world\<close>, together with what the actions leave behind
  for an observer: the SDK calls issued (oldest first), the lines written by
  \<^verbatim>\<open>console.log\<close> in \<^verbatim>\<open>handleError\<close>, and the paths revalidated.
\<close>

datatype error = Error string

record js_file =
  file_name :: string
  file_bytes :: "8 word list"

text \<open>The fields of \<^verbatim>\<open>Models.File\<close> that the actions read.\<close>

record bucketFile =
  bf_id :: string
  bf_name :: string
  bf_sizeOriginal :: nat

text \<open>
  The object literal \<^verbatim>\<open>fileDocument\<close> of \<^verbatim>\<open>uploadFile\<close>, and the document the
  database returns for it: the same attributes with the identifier and the two
  timestamps that the database assigns.
\<close>

record fileDocument =
  doc_type :: FileType
  doc_name :: string
  doc_url :: string
  doc_extension :: string
  doc_size :: nat
  doc_owner :: string
  doc_accountId :: string
  doc_users :: "string list"
  doc_bucketFileId :: string

record document = fileDocument +
  doc_id :: string
  doc_createdAt :: string
  doc_updatedAt :: string

text \<open>The fields of the user document that \<^verbatim>\<open>createQueries\<close> reads.\<close>

record user =
  user_id :: string
  user_email :: string

datatype query =
    Or "query list"
  | Equal string "string list"
  | Contains string "string list"
  | Limit nat
  | OrderAsc string
  | OrderDesc string

datatype call =
    CreateFile string
  | DeleteFile string
  | CreateDocument fileDocument
  | DeleteDocument string
  | ListDocuments "query list"

record world =
  bucket :: "string \<rightharpoonup> js_file"
  filesCollection :: "document list"
  calls :: "call list"
  console :: "(error \<times> string) list"
  revalidated :: "string list"

text \<open>
  What the services decide during one action, outside the control of the code: the
  identifiers and the timestamp they assign (\<^verbatim>\<open>ID.unique()\<close> leaves the choice to
  the server), whether a call fails and with which error, the session cookie and the
  user of the session. Each action issues each kind of call at most once, so one outcome per
  kind of call describes a run.
\<close>

record env =
  penv :: process_env
  new_bucketFileId :: string
  new_documentId :: string
  now :: string
  createFile_error :: "error option"
  createDocument_error :: "error option"
  deleteFile_error :: "error option"
  deleteDocument_error :: "error option"
  listDocuments_error :: "error option"
  session :: "string option"
  session_user :: "user option"

type_synonym 'a outcome = "(error + 'a) \<times> world"

definition issue :: "call \<Rightarrow> world \<Rightarrow> world" where
  "issue c w = w\<lparr>calls := calls w @ [c]\<rparr>"

text \<open>
  Modelled from the spec: the services are not code of the repository; the spec gives
  their interface (put and delete of a blob, insert, query and delete of a record,
  each of which may fail). A call that fails leaves the store as it was, the creation
  of a document being atomic; a call that succeeds has its effect on the store, and
  the deletion of a missing key is not an error. \<^verbatim>\<open>createFile\<close> stores the file
  under the new identifier and reports its name and its size in bytes.
\<close>

definition storage_createFile :: "env \<Rightarrow> js_file \<Rightarrow> world \<Rightarrow> bucketFile outcome" where
  "storage_createFile e file w =
     (case createFile_error e of
        Some err \<Rightarrow> (Inl err, issue (CreateFile (file_name file)) w)
      | None \<Rightarrow>
          (Inr \<lparr>bf_id = new_bucketFileId e, bf_name = file_name file,
                bf_sizeOriginal = length (file_bytes file)\<rparr>,
           issue (CreateFile (file_name file))
             (w\<lparr>bucket := (bucket w)(new_bucketFileId e \<mapsto> file)\<rparr>)))"

definition storage_deleteFile :: "env \<Rightarrow> string \<Rightarrow> world \<Rightarrow> unit outcome" where
  "storage_deleteFile e bucketFileId w =
     (case deleteFile_error e of
        Some err \<Rightarrow> (Inl err, issue (DeleteFile bucketFileId) w)
      | None \<Rightarrow>
          (Inr (), issue (DeleteFile bucketFileId)
             (w\<lparr>bucket := (bucket w)(bucketFileId := None)\<rparr>)))"

definition databases_createDocument ::
  "env \<Rightarrow> fileDocument \<Rightarrow> world \<Rightarrow> document outcome" where
  "databases_createDocument e data w =
     (case createDocument_error e of
        Some err \<Rightarrow> (Inl err, issue (CreateDocument data) w)
      | None \<Rightarrow>
          (let newDoc =
                 \<lparr>doc_type = doc_type data, doc_name = doc_name data, doc_url = doc_url data,
                  doc_extension = doc_extension data, doc_size = doc_size data,
                  doc_owner = doc_owner data, doc_accountId = doc_accountId data,
                  doc_users = doc_users data, doc_bucketFileId = doc_bucketFileId data,
                  doc_id = new_documentId e, doc_createdAt = now e, doc_updatedAt = now e\<rparr>
           in (Inr newDoc,
               issue (CreateDocument data)
                 (w\<lparr>filesCollection := filesCollection w @ [newDoc]\<rparr>))))"

text \<open>
  \<^verbatim>\<open>deleteDocument\<close> is declared to resolve to \<^verbatim>\<open>{}\<close>: the SDK hands back the
  object it made of the response, which for a deletion has no attributes.
  \<^verbatim>\<open>deleteFile\<close> tests the truthiness of that value; an object is truthy.
\<close>

datatype js_value = Undefined | Object "(string \<times> string) list"

fun truthy :: "js_value \<Rightarrow> bool" where
  "truthy Undefined = False"
| "truthy (Object attributes) = True"

definition databases_deleteDocument :: "env \<Rightarrow> string \<Rightarrow> world \<Rightarrow> js_value outcome" where
  "databases_deleteDocument e fileId w =
     (case deleteDocument_error e of
        Some err \<Rightarrow> (Inl err, issue (DeleteDocument fileId) w)
      | None \<Rightarrow>
          (Inr (Object []),
           issue (DeleteDocument fileId)
             (w\<lparr>filesCollection := filter (\<lambda>d. doc_id d \<noteq> fileId) (filesCollection w)\<rparr>)))"

subsection \<open>Evaluation of queries by the database\<close>

text \<open>
  The attributes of a file document as the database sees them: a string, an array of
  strings or a number.
\<close>

datatype attribute_value = VString string | VStrings "string list" | VNumber nat

fun FileType_name :: "FileType \<Rightarrow> string" where
  "FileType_name Document = ''document''"
| "FileType_name Image = ''image''"
| "FileType_name Video = ''video''"
| "FileType_name Audio = ''audio''"
| "FileType_name Other = ''other''"

definition attribute :: "string \<Rightarrow> document \<Rightarrow> attribute_value option" where
  "attribute a d =
     (if a = ''type'' then Some (VString (FileType_name (doc_type d)))
      else if a = ''name'' then Some (VString (doc_name d))
      else if a = ''url'' then Some (VString (doc_url d))
      else if a = ''extension'' then Some (VString (doc_extension d))
      else if a = ''size'' then Some (VNumber (doc_size d))
      else if a = ''owner'' then Some (VString (doc_owner d))
      else if a = ''accountId'' then Some (VString (doc_accountId d))
      else if a = ''users'' then Some (VStrings (doc_users d))
      else if a = ''bucketFileId'' then Some (VString (doc_bucketFileId d))
      else if a = ''$id'' then Some (VString (doc_id d))
      else if a = ''$createdAt'' then Some (VString (doc_createdAt d))
      else if a = ''$updatedAt'' then Some (VString (doc_updatedAt d))
      else None)"

text \<open>
  Modelled from the spec: the query evaluation of the metadata store is not part of
  the repository. A document is selected when it satisfies every filter of the list:
  \<open>Equal\<close> holds when the attribute is one of the values, \<open>Contains\<close> when an
  array attribute has one of the values as an element or a string attribute has one
  of them as a substring, \<open>Or\<close> when one of its members holds. \<open>Limit\<close> caps the
  number of documents returned. The order directives select nothing; the model
  returns the selected documents in the order of the collection.
\<close>

fun matches :: "query \<Rightarrow> document \<Rightarrow> bool" where
  "matches (Or qs) d = (\<exists>q \<in> set qs. matches q d)"
| "matches (Equal a vs) d =
     (case attribute a d of
        Some (VString s) \<Rightarrow> s \<in> set vs
      | _ \<Rightarrow> False)"
| "matches (Contains a vs) d =
     (case attribute a d of
        Some (VStrings ss) \<Rightarrow> (\<exists>v \<in> set vs. v \<in> set ss)
      | Some (VString s) \<Rightarrow> (\<exists>v \<in> set vs. sublist v s)
      | _ \<Rightarrow> False)"
| "matches (Limit n) d = True"
| "matches (OrderAsc a) d = True"
| "matches (OrderDesc a) d = True"

fun limit_of :: "query list \<Rightarrow> nat option" where
  "limit_of [] = None"
| "limit_of (Limit n # qs) = Some n"
| "limit_of (q # qs) = limit_of qs"

definition select_documents :: "query list \<Rightarrow> document list \<Rightarrow> document list" where
  "select_documents queries docs =
     (let selected = filter (\<lambda>d. \<forall>q \<in> set queries. matches q d) docs
      in case limit_of queries of None \<Rightarrow> selected | Some n \<Rightarrow> take n selected)"

definition databases_listDocuments ::
  "env \<Rightarrow> query list \<Rightarrow> world \<Rightarrow> document list outcome" where
  "databases_listDocuments e queries w =
     (case listDocuments_error e of
        Some err \<Rightarrow> (Inl err, issue (ListDocuments queries) w)
      | None \<Rightarrow>
          (Inr (select_documents queries (filesCollection w)),
           issue (ListDocuments queries) w))"

section \<open>The file actions (lib/actions/file.actions.ts)\<close>

subsection \<open>Control flow: await, try and catch\<close>

text \<open>
  An action runs on a world and ends with a value or with a thrown error.
  \<open>await_then\<close> continues after a call that succeeded and lets an error pass;
  \<open>try_catch\<close> hands a thrown error to the handler.
\<close>

definition await_then ::
  "'a outcome \<Rightarrow> ('a \<Rightarrow> world \<Rightarrow> 'b outcome) \<Rightarrow> 'b outcome" where
  "await_then r k = (case r of (Inl err, w) \<Rightarrow> (Inl err, w) | (Inr v, w) \<Rightarrow> k v w)"

definition try_catch ::
  "'a outcome \<Rightarrow> (error \<Rightarrow> world \<Rightarrow> 'a outcome) \<Rightarrow> 'a outcome" where
  "try_catch r handler = (case r of (Inl err, w) \<Rightarrow> handler err w | (Inr v, w) \<Rightarrow> (Inr v, w))"

text \<open>\<^verbatim>\<open>handleError\<close> writes the error and the message to the console and throws the error.\<close>

definition handleError :: "error \<Rightarrow> string \<Rightarrow> world \<Rightarrow> 'a outcome" where
  "handleError err message w = (Inl err, w\<lparr>console := console w @ [(err, message)]\<rparr>)"

definition revalidatePath :: "string \<Rightarrow> world \<Rightarrow> world" where
  "revalidatePath path w = w\<lparr>revalidated := revalidated w @ [path]\<rparr>"

subsection \<open>createQueries\<close>

text \<open>
  \<^verbatim>\<open>limit\<close> is optional: \<open>None\<close> is \<^verbatim>\<open>undefined\<close>, and \<^verbatim>\<open>if (limit)\<close> also
  skips the number 0. \<^verbatim>\<open>const [sortBy, orderBy] = sort.split("-")\<close> takes the first
  two pieces of the split at every hyphen; \<^verbatim>\<open>orderBy\<close> is \<^verbatim>\<open>undefined\<close> when the
  string has no hyphen.
\<close>

definition createQueries ::
  "user \<Rightarrow> string list \<Rightarrow> string \<Rightarrow> string \<Rightarrow> nat option \<Rightarrow> query list" where
  "createQueries currentUser types searchText sort' limit =
     [Or [Equal ''owner'' [user_id currentUser],
          Contains ''users'' [user_email currentUser]]]
     @ (if length types > 0 then [Equal ''type'' types] else [])
     @ (if searchText \<noteq> [] then [Contains ''name'' [searchText]] else [])
     @ (case limit of None \<Rightarrow> [] | Some n \<Rightarrow> if n \<noteq> 0 then [Limit n] else [])
     @ (if sort' \<noteq> [] then
          (let pieces = js_split (CHR ''-'') sort';
               sortBy = hd pieces;
               orderBy = (case tl pieces of [] \<Rightarrow> None | p # _ \<Rightarrow> Some p)
           in [if orderBy = Some ''asc'' then OrderAsc sortBy else OrderDesc sortBy])
        else [])"

subsection \<open>uploadFile\<close>

text \<open>
  The \<^verbatim>\<open>try\<close> block of the source: the file is stored, the document is built from
  what the storage reports, and the document is created; the handler attached to the
  creation deletes the stored file and hands the error to \<^verbatim>\<open>handleError\<close>. The
  value \<^verbatim>\<open>inputFile\<close> of the source is not used by it and has no counterpart here.
\<close>

definition uploadFile ::
  "env \<Rightarrow> js_file \<Rightarrow> string \<Rightarrow> string \<Rightarrow> string \<Rightarrow> world \<Rightarrow> document outcome" where
  "uploadFile e file ownerId accountId path w =
     try_catch
       (await_then (storage_createFile e file w) (\<lambda>bucketFile w1.
          let fileDocument =
                \<lparr>doc_type = ft_type (getFileType (bf_name bucketFile)),
                 doc_name = bf_name bucketFile,
                 doc_url = constructFileUrl (penv e) (bf_id bucketFile),
                 doc_extension = ft_extension (getFileType (bf_name bucketFile)),
                 doc_size = bf_sizeOriginal bucketFile,
                 doc_owner = ownerId,
                 doc_accountId = accountId,
                 doc_users = [],
                 doc_bucketFileId = bf_id bucketFile\<rparr>
          in await_then
               (try_catch (databases_createDocument e fileDocument w1)
                  (\<lambda>error w2.
                     await_then (storage_deleteFile e (bf_id bucketFile) w2)
                       (\<lambda>_ w3. handleError error ''Failed to create file document'' w3)))
               (\<lambda>newFile w4. (Inr (parseStringify newFile), revalidatePath path w4))))
       (\<lambda>error w5. handleError error ''Failed to upload file'' w5)"

subsection \<open>getFiles\<close>

definition getFiles ::
  "env \<Rightarrow> string list \<Rightarrow> string \<Rightarrow> string \<Rightarrow> nat option \<Rightarrow> world \<Rightarrow> document list outcome"
  where
  "getFiles e types searchText sort' limit w =
     try_catch
       (case session_user e of
          None \<Rightarrow> (Inl (Error ''User not found''), w)
        | Some u \<Rightarrow>
            await_then
              (databases_listDocuments e (createQueries u types searchText sort' limit) w)
              (\<lambda>files w1. (Inr (parseStringify files), w1)))
       (\<lambda>error w2. handleError error ''Failed to get files'' w2)"

subsection \<open>deleteFile\<close>

definition deleteFile ::
  "env \<Rightarrow> string \<Rightarrow> string \<Rightarrow> string \<Rightarrow> world \<Rightarrow> string outcome" where
  "deleteFile e fileId bucketFileId path w =
     try_catch
       (await_then (databases_deleteDocument e fileId w) (\<lambda>deletedFile w1.
          await_then
            (if truthy deletedFile then storage_deleteFile e bucketFileId w1 else (Inr (), w1))
            (\<lambda>_ w2. (Inr (parseStringify ''success''), revalidatePath path w2))))
       (\<lambda>error w3. handleError error ''Failed to rename file'' w3)"

subsection \<open>getTotalSpaceUsed\<close>

text \<open>
  The numbers of the summary are JavaScript numbers holding byte counts: doubles whose
  value is a whole number, or \<^verbatim>\<open>Infinity\<close>. \<open>Null\<close> is what the JSON round trip of
  \<^verbatim>\<open>parseStringify\<close> makes of \<^verbatim>\<open>Infinity\<close>; in an addition it counts as 0.
\<close>

datatype js_number = Number nat | PlusInfinity | Null

fun bit_length :: "nat \<Rightarrow> nat" where
  "bit_length n = (if n = 0 then 0 else Suc (bit_length (n div 2)))"

declare bit_length.simps [simp del]

text \<open>
  The double nearest to a whole number, ties to the even significand, with the
  exponent unbounded: a number below \<open>2 ^ 53\<close> is a double; a larger one keeps its 53
  leading bits, rounded on the bits that are dropped.
\<close>

definition round_to_double :: "nat \<Rightarrow> nat" where
  "round_to_double n =
     (if n < 2 ^ 53 then n
      else
        (let dropped = bit_length n - 53;
             significand = n div 2 ^ dropped;
             remainder = n mod 2 ^ dropped
         in if 2 * remainder < 2 ^ dropped \<or> (2 * remainder = 2 ^ dropped \<and> even significand)
            then significand * 2 ^ dropped
            else (significand + 1) * 2 ^ dropped))"

fun number_value :: "js_number \<Rightarrow> nat option" where
  "number_value (Number n) = Some n"
| "number_value Null = Some 0"
| "number_value PlusInfinity = None"

text \<open>
  The operator \<^verbatim>\<open>+\<close> on such numbers: the exact sum, rounded to a double; a rounded
  sum of \<open>2 ^ 1024\<close> or more is \<^verbatim>\<open>Infinity\<close>, and so is a sum with \<^verbatim>\<open>Infinity\<close>.
\<close>

definition js_add :: "js_number \<Rightarrow> js_number \<Rightarrow> js_number" where
  "js_add x y =
     (case (number_value x, number_value y) of
        (Some a, Some b) \<Rightarrow>
          (let r = round_to_double (a + b)
           in if r < 2 ^ 1024 then Number r else PlusInfinity)
      | _ \<Rightarrow> PlusInfinity)"

record category_usage =
  cu_size :: js_number
  cu_latestDate :: string

text \<open>
  The object \<^verbatim>\<open>totalSpace\<close>: one entry per file type, reached by the dynamic key
  \<^verbatim>\<open>totalSpace[fileType]\<close>, and the two numbers \<^verbatim>\<open>used\<close> and \<^verbatim>\<open>all\<close>.
\<close>

record totalSpace =
  ts_entry :: "FileType \<Rightarrow> category_usage"
  ts_used :: js_number
  ts_all :: js_number

definition totalSpace_initial :: totalSpace where
  "totalSpace_initial =
     \<lparr>ts_entry = (\<lambda>_. \<lparr>cu_size = Number 0, cu_latestDate = ''''\<rparr>),
      ts_used = Number 0,
      ts_all = Number (2 * 1024 * 1024 * 1024)\<rparr>"

text \<open>
  \<^verbatim>\<open>new Date(s)\<close> is a builtin of the language: the parameter \<open>Date\<close> gives the
  time value of a string, \<open>None\<close> for an invalid date (\<^verbatim>\<open>NaN\<close>). A comparison with
  an invalid date is false.
\<close>

definition date_greater :: "(string \<Rightarrow> int option) \<Rightarrow> string \<Rightarrow> string \<Rightarrow> bool" where
  "date_greater Date a b =
     (case (Date a, Date b) of (Some x, Some y) \<Rightarrow> x > y | _ \<Rightarrow> False)"

text \<open>
  The body of the \<^verbatim>\<open>forEach\<close>. The size of a document is the whole number of bytes
  that the store reports; it is added as a JavaScript number.
\<close>

definition accumulate ::
  "(string \<Rightarrow> int option) \<Rightarrow> document \<Rightarrow> totalSpace \<Rightarrow> totalSpace" where
  "accumulate Date file ts =
     (let fileType = doc_type file;
          entry = ts_entry ts fileType;
          entry1 = entry\<lparr>cu_size := js_add (cu_size entry) (Number (doc_size file))\<rparr>;
          entry2 =
            (if cu_latestDate entry1 = [] \<or>
                date_greater Date (doc_updatedAt file) (cu_latestDate entry1)
             then entry1\<lparr>cu_latestDate := doc_updatedAt file\<rparr>
             else entry1)
      in ts\<lparr>ts_entry := (ts_entry ts)(fileType := entry2),
            ts_used := js_add (ts_used ts) (Number (doc_size file))\<rparr>)"

text \<open>
  The loop over \<^verbatim>\<open>files.documents\<close>, started on the initial \<^verbatim>\<open>totalSpace\<close>; the
  spec calls it \<^verbatim>\<open>summarize\<close>.
\<close>

definition summarize :: "(string \<Rightarrow> int option) \<Rightarrow> document list \<Rightarrow> totalSpace" where
  "summarize Date documents = fold (accumulate Date) documents totalSpace_initial"

text \<open>
  \<^verbatim>\<open>parseStringify\<close> on the summary: JSON has no \<^verbatim>\<open>Infinity\<close> and writes
  \<^verbatim>\<open>null\<close> for it; every other part of the summary comes back as it was.
\<close>

fun parseStringify_number :: "js_number \<Rightarrow> js_number" where
  "parseStringify_number (Number n) = Number n"
| "parseStringify_number PlusInfinity = Null"
| "parseStringify_number Null = Null"

definition parseStringify_totalSpace :: "totalSpace \<Rightarrow> totalSpace" where
  "parseStringify_totalSpace ts =
     \<lparr>ts_entry =
        (\<lambda>t. \<lparr>cu_size = parseStringify_number (cu_size (ts_entry ts t)),
               cu_latestDate = cu_latestDate (ts_entry ts t)\<rparr>),
      ts_used = parseStringify_number (ts_used ts),
      ts_all = parseStringify_number (ts_all ts)\<rparr>"

text \<open>
  \<^verbatim>\<open>createSessionClient\<close> throws when there is no session cookie or its value is
  empty; \<^verbatim>\<open>getCurrentUser\<close> gives the user of the session, if any.
\<close>

definition getTotalSpaceUsed ::
  "(string \<Rightarrow> int option) \<Rightarrow> env \<Rightarrow> world \<Rightarrow> totalSpace outcome" where
  "getTotalSpaceUsed Date e w =
     try_catch
       (case session e of
          None \<Rightarrow> (Inl (Error ''No session''), w)
        | Some cookie \<Rightarrow>
            if cookie = [] then (Inl (Error ''No session''), w)
            else
              (case session_user e of
                 None \<Rightarrow> (Inl (Error ''User is not authenticated.''), w)
               | Some u \<Rightarrow>
                   await_then
                     (databases_listDocuments e [Equal ''owner'' [user_id u]] w)
                     (\<lambda>files w1.
                        (Inr (parseStringify_totalSpace (summarize Date files)), w1))))
       (\<lambda>error w2. handleError error ''Error calculating total space used:, '' w2)"

section \<open>Concrete runs\<close>

text \<open>
  Inputs on which the theorems below are evaluated: an empty world, a file of ten
  bytes named \<^verbatim>\<open>a.txt\<close>, services that answer every call, services whose database
  rejects the new document, and services that also fail to delete the stored file.
\<close>

definition world_empty :: world where
  "world_empty =
     \<lparr>bucket = Map.empty, filesCollection = [], calls = [], console = [], revalidated = []\<rparr>"

definition file_a_txt :: js_file where
  "file_a_txt = \<lparr>file_name = ''a.txt'', file_bytes = [1, 2, 3, 4, 5, 6, 7, 8, 9, 10]\<rparr>"

definition env_ok :: env where
  "env_ok =
     \<lparr>penv = \<lparr>NEXT_PUBLIC_APPWRITE_ENDPOINT = ''https://cloud.appwrite.io/v1'',
              NEXT_PUBLIC_APPWRITE_BUCKET = ''bucket1'',
              NEXT_PUBLIC_APPWRITE_PROJECT = ''project1''\<rparr>,
      new_bucketFileId = ''b1'',
      new_documentId = ''d1'',
      now = ''2024-11-05T10:15:30.123+00:00'',
      createFile_error = None,
      createDocument_error = None,
      deleteFile_error = None,
      deleteDocument_error = None,
      listDocuments_error = None,
      session = Some ''secret'',
      session_user = Some \<lparr>user_id = ''u1'', user_email = ''u1@x.com''\<rparr>\<rparr>"

definition env_document_rejected :: env where
  "env_document_rejected =
     env_ok\<lparr>createDocument_error := Some (Error ''document_invalid_structure'')\<rparr>"

definition env_both_fail :: env where
  "env_both_fail =
     env_ok\<lparr>createDocument_error := Some (Error ''document_invalid_structure''),
            deleteFile_error := Some (Error ''storage_unreachable'')\<rparr>"

definition env_delete_rejected :: env where
  "env_delete_rejected = env_ok\<lparr>deleteDocument_error := Some (Error ''document_not_found'')\<rparr>"

text \<open>The world after the upload of \<^verbatim>\<open>a.txt\<close> by the user \<^verbatim>\<open>u1\<close>.\<close>

definition world_uploaded :: world where
  "world_uploaded = snd (uploadFile env_ok file_a_txt ''u1'' ''acc1'' ''/documents'' world_empty)"

text \<open>Another user, and the document that the upload of \<^verbatim>\<open>a.txt\<close> creates.\<close>

definition user_u2 :: user where
  "user_u2 = \<lparr>user_id = ''u2'', user_email = ''u2@x.com''\<rparr>"

definition document_a_txt :: document where
  "document_a_txt =
     \<lparr>doc_type = Document, doc_name = ''a.txt'',
      doc_url =
        ''https://cloud.appwrite.io/v1/storage/buckets/bucket1/files/b1/view?project=project1'',
      doc_extension = ''txt'', doc_size = 10, doc_owner = ''u1'', doc_accountId = ''acc1'',
      doc_users = [], doc_bucketFileId = ''b1'', doc_id = ''d1'',
      doc_createdAt = ''2024-11-05T10:15:30.123+00:00'',
      doc_updatedAt = ''2024-11-05T10:15:30.123+00:00''\<rparr>"

text \<open>
  A second document of the same type with a later modification, and the time values
  of the two timestamps (milliseconds since the epoch), as \<^verbatim>\<open>new Date\<close> gives them.
\<close>

definition document_b_txt :: document where
  "document_b_txt =
     \<lparr>doc_type = Document, doc_name = ''b.txt'',
      doc_url =
        ''https://cloud.appwrite.io/v1/storage/buckets/bucket1/files/b2/view?project=project1'',
      doc_extension = ''txt'', doc_size = 5, doc_owner = ''u1'', doc_accountId = ''acc1'',
      doc_users = [], doc_bucketFileId = ''b2'', doc_id = ''d2'',
      doc_createdAt = ''2024-11-06T08:00:00.000+00:00'',
      doc_updatedAt = ''2024-11-06T08:00:00.000+00:00''\<rparr>"

definition Date_sample :: "string \<Rightarrow> int option" where
  "Date_sample =
     map_of [(''2024-11-05T10:15:30.123+00:00'', 1730801730123),
             (''2024-11-06T08:00:00.000+00:00'', 1730880000000)]"

section \<open>Properties\<close>

lemmas action_defs =
  uploadFile_def deleteFile_def await_then_def try_catch_def handleError_def
  revalidatePath_def parseStringify_def issue_def
  storage_createFile_def storage_deleteFile_def
  databases_createDocument_def databases_deleteDocument_def

lemmas run_defs =
  env_ok_def env_document_rejected_def env_both_fail_def env_delete_rejected_def
  world_empty_def file_a_txt_def

lemmas getFileType_defs =
  getFileType_def toLowerCase_def toLowerCase_char_def documentExtensions_def
  imageExtensions_def videoExtensions_def audioExtensions_def

lemma js_split_not_Nil: "js_split sep s \<noteq> []"
  by (cases s) simp_all

subsection \<open>Classification\<close>

lemma getFileType_pdf:
  "getFileType ''a.pdf'' = \<lparr>ft_type = Document, ft_extension = ''pdf''\<rparr>"
  by (simp add: getFileType_defs)

lemma getFileType_JPG:
  "getFileType ''a.JPG'' = \<lparr>ft_type = Image, ft_extension = ''jpg''\<rparr>"
  by (simp add: getFileType_defs)

lemma getFileType_xyz:
  "getFileType ''a.xyz'' = \<lparr>ft_type = Other, ft_extension = ''xyz''\<rparr>"
  by (simp add: getFileType_defs)

lemma getFileType_txt:
  "getFileType ''a.txt'' = \<lparr>ft_type = Document, ft_extension = ''txt''\<rparr>"
  by (simp add: getFileType_defs)

text \<open>
  C4. The claim gives four values of the classification. Three are the values of the
  code (the lemmas above). For a name without extension the claim, like the
  documentation of \<^verbatim>\<open>getFileType\<close> (``an empty string if no extension is found'',
  with the example \<^verbatim>\<open>getFileType("no_extension_file")\<close>), promises the empty
  extension. The code takes the last piece of the split at the dots, which for a
  name without a dot is the whole name: \<^verbatim>\<open>getFileType("noext")\<close> has the
  extension \<^verbatim>\<open>"noext"\<close>.
\<close>

theorem getFileType_noext:
  "getFileType ''noext'' = \<lparr>ft_type = Other, ft_extension = ''noext''\<rparr>
   \<and> getFileType ''noext'' \<noteq> \<lparr>ft_type = Other, ft_extension = ''''\<rparr>"
  by (simp add: getFileType_defs)

subsection \<open>Upload: failure of the metadata write\<close>

text \<open>
  C1, as the code has it. When the file was stored and the creation of the document
  fails, \<^verbatim>\<open>uploadFile\<close> issues exactly three calls, the last of them the deletion
  of the stored file, and it ends with an error, never with a document. When the
  deletion succeeds, the error is the one of the document creation.
\<close>

theorem uploadFile_compensates:
  assumes "createFile_error e = None" and "createDocument_error e = Some err"
  shows "(\<exists>data. calls (snd (uploadFile e file ownerId accountId path w)) =
            calls w @ [CreateFile (file_name file), CreateDocument data,
                       DeleteFile (new_bucketFileId e)])
       \<and> (\<exists>err'. fst (uploadFile e file ownerId accountId path w) = Inl err')
       \<and> (deleteFile_error e = None \<longrightarrow>
            fst (uploadFile e file ownerId accountId path w) = Inl err)"
  using assms by (cases "deleteFile_error e") (simp_all add: action_defs Let_def)

text \<open>
  The run in which the database rejects the document and the deletion succeeds: the
  caller receives the error of the database.
\<close>

theorem uploadFile_compensates_witness:
  "createFile_error env_document_rejected = None
   \<and> createDocument_error env_document_rejected = Some (Error ''document_invalid_structure'')
   \<and> deleteFile_error env_document_rejected = None
   \<and> fst (uploadFile env_document_rejected file_a_txt ''u1'' ''acc1'' ''/documents'' world_empty)
       = Inl (Error ''document_invalid_structure'')"
  using uploadFile_compensates [of env_document_rejected "Error ''document_invalid_structure''"
      file_a_txt "''u1''" "''acc1''" "''/documents''" world_empty]
  by (simp add: run_defs)

text \<open>
  C1 as stated fails when the deletion fails as well: the error thrown inside the
  \<^verbatim>\<open>catch\<close> handler by \<^verbatim>\<open>storage.deleteFile\<close> replaces the error of the document
  creation, and the caller receives the error of the deletion.
\<close>

theorem uploadFile_double_failure:
  "createFile_error env_both_fail = None
   \<and> createDocument_error env_both_fail = Some (Error ''document_invalid_structure'')
   \<and> fst (uploadFile env_both_fail file_a_txt ''u1'' ''acc1'' ''/documents'' world_empty)
       = Inl (Error ''storage_unreachable'')
   \<and> fst (uploadFile env_both_fail file_a_txt ''u1'' ''acc1'' ''/documents'' world_empty)
       \<noteq> Inl (Error ''document_invalid_structure'')"
  by (simp add: action_defs Let_def run_defs)

text \<open>
  C2, as the code has it. An upload whose document creation fails never ends with a
  document. When the deletion of the stored file succeeds, the file is gone from the
  bucket and the error of the document creation is thrown. When the deletion fails,
  the error of the deletion is thrown, it is the only line written to the console,
  and the stored file stays in the bucket.
\<close>

theorem uploadFile_metadata_failure:
  assumes "createFile_error e = None" and "createDocument_error e = Some err"
  shows "(\<forall>d. fst (uploadFile e file ownerId accountId path w) \<noteq> Inr d)
       \<and> (deleteFile_error e = None \<longrightarrow>
            bucket (snd (uploadFile e file ownerId accountId path w)) (new_bucketFileId e) = None
            \<and> fst (uploadFile e file ownerId accountId path w) = Inl err)
       \<and> (\<forall>err'. deleteFile_error e = Some err' \<longrightarrow>
            fst (uploadFile e file ownerId accountId path w) = Inl err'
            \<and> console (snd (uploadFile e file ownerId accountId path w))
                = console w @ [(err', ''Failed to upload file'')]
            \<and> bucket (snd (uploadFile e file ownerId accountId path w)) (new_bucketFileId e)
                = Some file)"
  using assms by (cases "deleteFile_error e") (simp_all add: action_defs Let_def)

text \<open>The run in which both the document creation and the deletion fail.\<close>

theorem uploadFile_metadata_failure_witness:
  "createFile_error env_both_fail = None
   \<and> createDocument_error env_both_fail = Some (Error ''document_invalid_structure'')
   \<and> deleteFile_error env_both_fail = Some (Error ''storage_unreachable'')
   \<and> fst (uploadFile env_both_fail file_a_txt ''u1'' ''acc1'' ''/documents'' world_empty)
       = Inl (Error ''storage_unreachable'')
   \<and> bucket (snd (uploadFile env_both_fail file_a_txt ''u1'' ''acc1'' ''/documents'' world_empty))
        (new_bucketFileId env_both_fail) = Some file_a_txt"
  using uploadFile_metadata_failure [of env_both_fail "Error ''document_invalid_structure''"
      file_a_txt "''u1''" "''acc1''" "''/documents''" world_empty]
  by (simp add: run_defs)

text \<open>
  C2 as stated fails in that run: the caller receives one error, the one of the
  deletion; the error of the document creation is neither thrown nor written to the
  console, and nothing else is reported.
\<close>

theorem uploadFile_metadata_error_lost:
  "createDocument_error env_both_fail = Some (Error ''document_invalid_structure'')
   \<and> deleteFile_error env_both_fail = Some (Error ''storage_unreachable'')
   \<and> fst (uploadFile env_both_fail file_a_txt ''u1'' ''acc1'' ''/documents'' world_empty)
       = Inl (Error ''storage_unreachable'')
   \<and> console (snd (uploadFile env_both_fail file_a_txt ''u1'' ''acc1'' ''/documents'' world_empty))
       = [(Error ''storage_unreachable'', ''Failed to upload file'')]"
  by (simp add: action_defs Let_def run_defs)

subsection \<open>Upload: the result\<close>

text \<open>
  What a successful upload returns and leaves behind, and what a failed upload leaves
  in the collection.
\<close>

lemma uploadFile_Inr:
  assumes "fst (uploadFile e file ownerId accountId path w) = Inr d"
  shows "createFile_error e = None" and "createDocument_error e = None"
    and "d = \<lparr>doc_type = ft_type (getFileType (file_name file)),
              doc_name = file_name file,
              doc_url = constructFileUrl (penv e) (new_bucketFileId e),
              doc_extension = ft_extension (getFileType (file_name file)),
              doc_size = length (file_bytes file),
              doc_owner = ownerId,
              doc_accountId = accountId,
              doc_users = [],
              doc_bucketFileId = new_bucketFileId e,
              doc_id = new_documentId e,
              doc_createdAt = now e,
              doc_updatedAt = now e\<rparr>"
    and "filesCollection (snd (uploadFile e file ownerId accountId path w))
           = filesCollection w @ [d]"
    and "bucket (snd (uploadFile e file ownerId accountId path w))
           = (bucket w)(new_bucketFileId e \<mapsto> file)"
    and "calls (snd (uploadFile e file ownerId accountId path w))
           = calls w @ [CreateFile (file_name file),
                        CreateDocument (fileDocument.truncate d)]"
  using assms
  by (cases "createFile_error e"; cases "createDocument_error e"; cases "deleteFile_error e";
      auto simp add: action_defs Let_def document.defs fileDocument.defs)+

lemma uploadFile_Inl:
  assumes "fst (uploadFile e file ownerId accountId path w) = Inl err"
  shows "filesCollection (snd (uploadFile e file ownerId accountId path w)) = filesCollection w"
  using assms
  by (cases "createFile_error e"; cases "createDocument_error e"; cases "deleteFile_error e";
      simp add: action_defs Let_def)

text \<open>
  C3. An upload ends with an error, and then the collection of file documents is as
  it was, or with a document all of whose attributes are set: type and extension
  are those of the classification of the stored name, the size is the size of the
  stored file, owner and account are the arguments, the list of users is empty, the
  bucket file is the one just stored, and the document is in the collection. In
  particular the upload of a file of ten bytes named \<^verbatim>\<open>a.txt\<close> for the owner
  \<^verbatim>\<open>u1\<close>, when it succeeds, returns a document of type \<^verbatim>\<open>document\<close>,
  extension \<^verbatim>\<open>txt\<close>, size 10 and owner \<^verbatim>\<open>u1\<close>.
\<close>

theorem uploadFile_complete_or_error:
  "((\<exists>err. fst (uploadFile e file ownerId accountId path w) = Inl err
        \<and> filesCollection (snd (uploadFile e file ownerId accountId path w))
            = filesCollection w)
    \<or> (\<exists>d. fst (uploadFile e file ownerId accountId path w) = Inr d
        \<and> doc_type d = ft_type (getFileType (file_name file))
        \<and> doc_name d = file_name file
        \<and> doc_url d = constructFileUrl (penv e) (new_bucketFileId e)
        \<and> doc_extension d = ft_extension (getFileType (file_name file))
        \<and> doc_size d = length (file_bytes file)
        \<and> doc_owner d = ownerId
        \<and> doc_accountId d = accountId
        \<and> doc_users d = []
        \<and> doc_bucketFileId d = new_bucketFileId e
        \<and> doc_id d = new_documentId e
        \<and> doc_createdAt d = now e
        \<and> doc_updatedAt d = now e
        \<and> d \<in> set (filesCollection (snd (uploadFile e file ownerId accountId path w)))
        \<and> bucket (snd (uploadFile e file ownerId accountId path w)) (doc_bucketFileId d)
            = Some file))
   \<and> (file_name file' = ''a.txt'' \<longrightarrow> length (file_bytes file') = 10 \<longrightarrow>
        (\<forall>d. fst (uploadFile e' file' ''u1'' accountId' path' w') = Inr d \<longrightarrow>
           doc_type d = Document \<and> doc_extension d = ''txt'' \<and> doc_size d = 10
           \<and> doc_owner d = ''u1''))"
proof (intro conjI impI allI)
  show "(\<exists>err. fst (uploadFile e file ownerId accountId path w) = Inl err
        \<and> filesCollection (snd (uploadFile e file ownerId accountId path w))
            = filesCollection w)
    \<or> (\<exists>d. fst (uploadFile e file ownerId accountId path w) = Inr d
        \<and> doc_type d = ft_type (getFileType (file_name file))
        \<and> doc_name d = file_name file
        \<and> doc_url d = constructFileUrl (penv e) (new_bucketFileId e)
        \<and> doc_extension d = ft_extension (getFileType (file_name file))
        \<and> doc_size d = length (file_bytes file)
        \<and> doc_owner d = ownerId
        \<and> doc_accountId d = accountId
        \<and> doc_users d = []
        \<and> doc_bucketFileId d = new_bucketFileId e
        \<and> doc_id d = new_documentId e
        \<and> doc_createdAt d = now e
        \<and> doc_updatedAt d = now e
        \<and> d \<in> set (filesCollection (snd (uploadFile e file ownerId accountId path w)))
        \<and> bucket (snd (uploadFile e file ownerId accountId path w)) (doc_bucketFileId d)
            = Some file)"
  proof (cases "fst (uploadFile e file ownerId accountId path w)")
    case (Inl err)
    then show ?thesis using uploadFile_Inl [OF Inl] by simp
  next
    case (Inr d)
    show ?thesis
      using Inr uploadFile_Inr(3) [OF Inr] uploadFile_Inr(4) [OF Inr] uploadFile_Inr(5) [OF Inr]
      by simp
  qed
next
  fix d
  assume n: "file_name file' = ''a.txt''" and l: "length (file_bytes file') = 10"
    and r: "fst (uploadFile e' file' ''u1'' accountId' path' w') = Inr d"
  have t: "getFileType ''a.txt'' = \<lparr>ft_type = Document, ft_extension = ''txt''\<rparr>"
    by (simp add: getFileType_defs)
  from uploadFile_Inr(3) [OF r] n l t
  show "doc_type d = Document" "doc_extension d = ''txt''" "doc_size d = 10" "doc_owner d = ''u1''"
    by simp_all
qed

text \<open>The upload of \<^verbatim>\<open>a.txt\<close> with services that answer every call.\<close>

theorem uploadFile_complete_or_error_witness:
  "file_name file_a_txt = ''a.txt'' \<and> length (file_bytes file_a_txt) = 10
   \<and> (\<exists>d. fst (uploadFile env_ok file_a_txt ''u1'' ''acc1'' ''/documents'' world_empty) = Inr d
        \<and> doc_type d = Document \<and> doc_extension d = ''txt'' \<and> doc_size d = 10
        \<and> doc_owner d = ''u1'')"
proof -
  have n: "file_name file_a_txt = ''a.txt''" and l: "length (file_bytes file_a_txt) = 10"
    by (simp_all add: file_a_txt_def)
  obtain d where r: "fst (uploadFile env_ok file_a_txt ''u1'' ''acc1'' ''/documents'' world_empty) = Inr d"
    by (simp add: action_defs Let_def run_defs)
  from uploadFile_complete_or_error [of env_ok file_a_txt "''u1''" "''acc1''" "''/documents''" world_empty file_a_txt env_ok "''acc1''" "''/documents''" world_empty] n l r
  show ?thesis by blast
qed

subsection \<open>The query builder and the access predicate\<close>

lemma createQueries_access:
  "Or [Equal ''owner'' [user_id u], Contains ''users'' [user_email u]]
     \<in> set (createQueries u types searchText sort' limit)"
  by (simp add: createQueries_def)

lemma matches_access:
  "matches (Or [Equal ''owner'' [user_id u], Contains ''users'' [user_email u]]) d
     \<longleftrightarrow> doc_owner d = user_id u \<or> user_email u \<in> set (doc_users d)"
  by (auto simp add: attribute_def)

lemma select_documents_subset:
  "d \<in> set (select_documents queries docs) \<Longrightarrow> d \<in> set docs \<and> (\<forall>q \<in> set queries. matches q d)"
  by (auto simp add: select_documents_def Let_def split: option.splits dest: in_set_takeD)

lemma select_documents_access:
  assumes "d \<in> set (select_documents (createQueries u types searchText sort' limit) docs)"
  shows "doc_owner d = user_id u \<or> user_email u \<in> set (doc_users d)"
proof -
  from select_documents_subset [OF assms] createQueries_access [of u types searchText sort' limit]
  have "matches (Or [Equal ''owner'' [user_id u], Contains ''users'' [user_email u]]) d"
    by blast
  then show ?thesis by (simp only: matches_access)
qed

lemma select_documents_no_access:
  assumes "doc_owner d \<noteq> user_id u" and "user_email u \<notin> set (doc_users d)"
  shows "select_documents (createQueries u types searchText sort' limit) [d] = []"
proof -
  have "x \<notin> set (select_documents (createQueries u types searchText sort' limit) [d])" for x
  proof
    assume x: "x \<in> set (select_documents (createQueries u types searchText sort' limit) [d])"
    from select_documents_subset [OF x] have "x = d" by simp
    with select_documents_access [OF x] assms show False by simp
  qed
  then show ?thesis
    by (cases "select_documents (createQueries u types searchText sort' limit) [d]") auto
qed

text \<open>
  C5. Whatever the user, the types, the search text, the sort string and the limit,
  the list built by \<^verbatim>\<open>createQueries\<close> contains the access predicate: the owner
  is the current user, or the users of the document contain the email of the
  current user. Hence every document that the database selects for that list is a
  document of the collection that the user owns or that is shared with the user; a
  document of another owner that is shared with nobody is not selected; and
  \<^verbatim>\<open>getFiles\<close>, when the listing succeeds, returns only documents that the user
  of the session owns or has been given.
\<close>

theorem createQueries_access_predicate:
  "Or [Equal ''owner'' [user_id u], Contains ''users'' [user_email u]]
     \<in> set (createQueries u types searchText sort' limit)
   \<and> (\<forall>d \<in> set (select_documents (createQueries u types searchText sort' limit) docs).
         d \<in> set docs \<and> (doc_owner d = user_id u \<or> user_email u \<in> set (doc_users d)))
   \<and> (doc_owner d' \<noteq> user_id u \<longrightarrow> doc_users d' = [] \<longrightarrow>
         select_documents (createQueries u types searchText sort' limit) [d'] = [])
   \<and> (session_user e = Some u \<longrightarrow> listDocuments_error e = None \<longrightarrow>
         (\<exists>files. fst (getFiles e types searchText sort' limit w) = Inr files
            \<and> (\<forall>d \<in> set files. d \<in> set (filesCollection w)
                  \<and> (doc_owner d = user_id u \<or> user_email u \<in> set (doc_users d)))))"
proof (intro conjI impI ballI)
  show "Or [Equal ''owner'' [user_id u], Contains ''users'' [user_email u]]
     \<in> set (createQueries u types searchText sort' limit)"
    by (rule createQueries_access)
next
  fix d assume d: "d \<in> set (select_documents (createQueries u types searchText sort' limit) docs)"
  show "d \<in> set docs"
    using select_documents_subset [OF d] by simp
  show "doc_owner d = user_id u \<or> user_email u \<in> set (doc_users d)"
    using select_documents_access [OF d] by simp
next
  assume a: "doc_owner d' \<noteq> user_id u" "doc_users d' = []"
  then show "select_documents (createQueries u types searchText sort' limit) [d'] = []"
    by (simp add: select_documents_no_access)
next
  assume s: "session_user e = Some u" "listDocuments_error e = None"
  then have r: "fst (getFiles e types searchText sort' limit w)
      = Inr (select_documents (createQueries u types searchText sort' limit) (filesCollection w))"
    by (simp add: getFiles_def action_defs databases_listDocuments_def)
  have "d \<in> set (filesCollection w)
          \<and> (doc_owner d = user_id u \<or> user_email u \<in> set (doc_users d))"
    if d: "d \<in> set (select_documents (createQueries u types searchText sort' limit)
                     (filesCollection w))" for d
    using select_documents_subset [OF d] select_documents_access [OF d] by simp
  with r show "\<exists>files. fst (getFiles e types searchText sort' limit w) = Inr files
            \<and> (\<forall>d \<in> set files. d \<in> set (filesCollection w)
                  \<and> (doc_owner d = user_id u \<or> user_email u \<in> set (doc_users d)))"
    by simp
qed

lemma world_uploaded_eq:
  "world_uploaded =
     \<lparr>bucket = [''b1'' \<mapsto> file_a_txt], filesCollection = [document_a_txt],
      calls = [CreateFile ''a.txt'', CreateDocument (fileDocument.truncate document_a_txt)],
      console = [], revalidated = [''/documents'']\<rparr>"
  by (simp add: world_uploaded_def action_defs Let_def env_ok_def world_empty_def
      getFileType_txt constructFileUrl_def document_a_txt_def file_a_txt_def
      fileDocument.truncate_def)

text \<open>
  The user \<^verbatim>\<open>u2\<close> lists the files after \<^verbatim>\<open>u1\<close> has uploaded \<^verbatim>\<open>a.txt\<close>: the
  result is empty.
\<close>

theorem createQueries_access_predicate_witness:
  "document_a_txt \<in> set (filesCollection world_uploaded)
   \<and> doc_owner document_a_txt \<noteq> user_id user_u2
   \<and> doc_users document_a_txt = []
   \<and> select_documents (createQueries user_u2 [] [] ''$createdAt-desc'' None) [document_a_txt] = []
   \<and> fst (getFiles (env_ok\<lparr>session_user := Some user_u2\<rparr>) [] [] ''$createdAt-desc'' None
            world_uploaded) = Inr []"
proof -
  have a: "doc_owner document_a_txt \<noteq> user_id user_u2" "doc_users document_a_txt = []"
    by (simp_all add: document_a_txt_def user_u2_def)
  have s: "session_user (env_ok\<lparr>session_user := Some user_u2\<rparr>) = Some user_u2"
    "listDocuments_error (env_ok\<lparr>session_user := Some user_u2\<rparr>) = None"
    by (simp_all add: env_ok_def)
  note t = createQueries_access_predicate [where u = user_u2 and types = "[]"
      and searchText = "[]" and sort' = "''$createdAt-desc''" and limit = None
      and d' = document_a_txt and e = "env_ok\<lparr>session_user := Some user_u2\<rparr>"
      and w = world_uploaded and docs = "[]"]
  from t a have n: "select_documents (createQueries user_u2 [] [] ''$createdAt-desc'' None)
      [document_a_txt] = []"
    by blast
  have g: "fst (getFiles (env_ok\<lparr>session_user := Some user_u2\<rparr>) [] [] ''$createdAt-desc'' None
            world_uploaded)
      = Inr (select_documents (createQueries user_u2 [] [] ''$createdAt-desc'' None)
               (filesCollection world_uploaded))"
    by (simp add: getFiles_def action_defs databases_listDocuments_def env_ok_def)
  show ?thesis using a n g by (simp add: world_uploaded_eq)
qed

subsection \<open>Upload: the list of users\<close>

text \<open>
  C9. The document that a successful upload returns has an empty list of users; it
  is the document inserted in the collection; and a listing by any user other than
  the owner does not select it.
\<close>

theorem uploadFile_users_empty:
  assumes "fst (uploadFile e file ownerId accountId path w) = Inr d"
  shows "doc_users d = []
       \<and> d \<in> set (filesCollection (snd (uploadFile e file ownerId accountId path w)))
       \<and> (\<forall>u. user_id u \<noteq> ownerId \<longrightarrow>
            select_documents (createQueries u types searchText sort' limit) [d] = [])"
proof (intro conjI allI impI)
  show u: "doc_users d = []"
    using uploadFile_Inr(3) [OF assms] by simp
  show "d \<in> set (filesCollection (snd (uploadFile e file ownerId accountId path w)))"
    using uploadFile_Inr(4) [OF assms] by simp
  fix u :: user assume "user_id u \<noteq> ownerId"
  moreover have "doc_owner d = ownerId"
    using uploadFile_Inr(3) [OF assms] by simp
  ultimately show "select_documents (createQueries u types searchText sort' limit) [d] = []"
    using u by (simp add: select_documents_no_access)
qed

text \<open>The upload of \<^verbatim>\<open>a.txt\<close> by \<^verbatim>\<open>u1\<close>, seen by \<^verbatim>\<open>u2\<close>.\<close>

theorem uploadFile_users_empty_witness:
  "fst (uploadFile env_ok file_a_txt ''u1'' ''acc1'' ''/documents'' world_empty) = Inr document_a_txt
   \<and> doc_users document_a_txt = []
   \<and> user_id user_u2 \<noteq> ''u1''
   \<and> select_documents (createQueries user_u2 [] [] ''$createdAt-desc'' None) [document_a_txt] = []"
proof -
  have r: "fst (uploadFile env_ok file_a_txt ''u1'' ''acc1'' ''/documents'' world_empty)
             = Inr document_a_txt"
    by (simp add: action_defs Let_def env_ok_def world_empty_def
      getFileType_txt constructFileUrl_def document_a_txt_def file_a_txt_def)
  have n: "user_id user_u2 \<noteq> ''u1''" by (simp add: user_u2_def)
  from uploadFile_users_empty [OF r, of "[]" "[]" "''$createdAt-desc''" None] r n
  show ?thesis by simp
qed

subsection \<open>The sort string\<close>

lemma js_split_no_sep: "sep \<notin> set s \<Longrightarrow> js_split sep s = [s]"
  by (induction s) auto

lemma js_split_append:
  "sep \<notin> set a \<Longrightarrow> js_split sep (a @ sep # b) = a # js_split sep b"
  by (induction a) auto

lemma createQueries_sort_pieces:
  assumes "CHR ''-'' \<notin> set field" and "CHR ''-'' \<notin> set direction"
  shows "createQueries u types searchText (field @ ''-'' @ direction) limit =
           createQueries u types searchText [] limit
           @ [if direction = ''asc'' then OrderAsc field else OrderDesc field]"
  using assms by (simp add: createQueries_def js_split_append js_split_no_sep)

lemma createQueries_first_two_pieces:
  assumes "CHR ''-'' \<notin> set field" and "CHR ''-'' \<notin> set direction"
  shows "createQueries u types searchText (field @ ''-'' @ direction @ ''-'' @ rest) limit =
           createQueries u types searchText [] limit
           @ [if direction = ''asc'' then OrderAsc field else OrderDesc field]"
  using assms js_split_not_Nil [of "CHR ''-''" rest]
  by (cases "js_split (CHR ''-'') rest")
     (simp_all add: createQueries_def js_split_append)

lemma createQueries_no_hyphen:
  assumes "CHR ''-'' \<notin> set field" and "field \<noteq> []"
  shows "createQueries u types searchText field limit =
           createQueries u types searchText [] limit @ [OrderDesc field]"
  using assms by (simp add: createQueries_def js_split_no_sep)

text \<open>
  C6, as the code has it. The sort string is split at every hyphen; the first piece
  is the field, the second piece is the direction, and any further piece is ignored.
  For a field without hyphen: the string \<^verbatim>\<open><field>-asc\<close> adds the ascending order
  on the field; a direction without hyphen other than \<^verbatim>\<open>asc\<close> adds the descending
  order on the field; when more hyphens follow the direction, the order is decided by
  the direction alone, whatever follows it; and a string without any hyphen adds the
  descending order on the whole string.
\<close>

theorem createQueries_sort:
  assumes "CHR ''-'' \<notin> set field"
  shows "createQueries u types searchText (field @ ''-asc'') limit =
           createQueries u types searchText [] limit @ [OrderAsc field]
       \<and> (CHR ''-'' \<notin> set direction \<longrightarrow> direction \<noteq> ''asc'' \<longrightarrow>
            createQueries u types searchText (field @ ''-'' @ direction) limit =
              createQueries u types searchText [] limit @ [OrderDesc field])
       \<and> (CHR ''-'' \<notin> set direction \<longrightarrow>
            createQueries u types searchText (field @ ''-'' @ direction @ ''-'' @ rest) limit =
              createQueries u types searchText [] limit
              @ [if direction = ''asc'' then OrderAsc field else OrderDesc field])
       \<and> (field \<noteq> [] \<longrightarrow>
            createQueries u types searchText field limit =
              createQueries u types searchText [] limit @ [OrderDesc field])"
  using createQueries_sort_pieces [OF assms, of "''asc''" u types searchText limit]
    createQueries_sort_pieces [OF assms, of direction u types searchText limit]
    createQueries_first_two_pieces [OF assms, of direction u types searchText rest limit]
    createQueries_no_hyphen [OF assms, of u types searchText limit]
  by simp

text \<open>
  The sort strings \<^verbatim>\<open>size-asc\<close>, \<^verbatim>\<open>size-weird\<close>, \<^verbatim>\<open>size-asc-desc\<close> and
  \<^verbatim>\<open>size\<close>.
\<close>

theorem createQueries_sort_witness:
  "CHR ''-'' \<notin> set ''size''
   \<and> createQueries user_u2 [] [] ''size-asc'' None =
       [Or [Equal ''owner'' [''u2''], Contains ''users'' [''u2@x.com'']], OrderAsc ''size'']
   \<and> createQueries user_u2 [] [] ''size-weird'' None =
       [Or [Equal ''owner'' [''u2''], Contains ''users'' [''u2@x.com'']], OrderDesc ''size'']
   \<and> createQueries user_u2 [] [] ''size-asc-desc'' None =
       [Or [Equal ''owner'' [''u2''], Contains ''users'' [''u2@x.com'']], OrderAsc ''size'']
   \<and> createQueries user_u2 [] [] ''size'' None =
       [Or [Equal ''owner'' [''u2''], Contains ''users'' [''u2@x.com'']], OrderDesc ''size'']"
proof -
  have h: "CHR ''-'' \<notin> set ''size''" by simp
  have w: "CHR ''-'' \<notin> set ''weird''" "''weird'' \<noteq> ''asc''" by simp_all
  have a: "CHR ''-'' \<notin> set ''asc''" by simp
  have b: "createQueries user_u2 [] [] [] None =
       [Or [Equal ''owner'' [''u2''], Contains ''users'' [''u2@x.com'']]]"
    by (simp add: createQueries_def user_u2_def)
  note t1 = createQueries_sort [OF h, where direction = "''weird''" and u = user_u2
      and types = "[]" and searchText = "[]" and limit = None and rest = "''desc''"]
  note t2 = createQueries_sort [OF h, where direction = "''asc''" and u = user_u2
      and types = "[]" and searchText = "[]" and limit = None and rest = "''desc''"]
  from t1 w have "createQueries user_u2 [] [] ''size-asc'' None =
       [Or [Equal ''owner'' [''u2''], Contains ''users'' [''u2@x.com'']], OrderAsc ''size'']"
    and "createQueries user_u2 [] [] ''size-weird'' None =
       [Or [Equal ''owner'' [''u2''], Contains ''users'' [''u2@x.com'']], OrderDesc ''size'']"
    and "createQueries user_u2 [] [] ''size'' None =
       [Or [Equal ''owner'' [''u2''], Contains ''users'' [''u2@x.com'']], OrderDesc ''size'']"
    by (simp_all add: b)
  moreover from t2 a have "createQueries user_u2 [] [] ''size-asc-desc'' None =
       [Or [Equal ''owner'' [''u2''], Contains ''users'' [''u2@x.com'']], OrderAsc ''size'']"
    by (simp add: b)
  ultimately show ?thesis using h by (intro conjI)
qed

text \<open>
  C6 as stated fails for a field with a hyphen: the split is not at the last hyphen.
  For \<^verbatim>\<open>created-at-asc\<close> the field is \<^verbatim>\<open>created\<close> and the direction
  \<^verbatim>\<open>at\<close>, so the order is descending on \<^verbatim>\<open>created\<close> and not ascending on
  \<^verbatim>\<open>created-at\<close>.
\<close>

theorem createQueries_sort_first_hyphen:
  "createQueries user_u2 [] [] ''created-at-asc'' None =
     [Or [Equal ''owner'' [''u2''], Contains ''users'' [''u2@x.com'']], OrderDesc ''created'']
   \<and> OrderAsc ''created-at'' \<notin> set (createQueries user_u2 [] [] ''created-at-asc'' None)"
  by (simp add: createQueries_def user_u2_def)

subsection \<open>Delete\<close>

text \<open>
  C8. When \<^verbatim>\<open>deleteFile\<close> returns its success status, the collection holds no
  document with the given identifier, the bucket holds no file under the given
  bucket file identifier, and the two deletions were issued, the document first.
\<close>

theorem deleteFile_success_removes_both:
  assumes "fst (deleteFile e fileId bucketFileId path w) = Inr status"
  shows "(\<forall>d \<in> set (filesCollection (snd (deleteFile e fileId bucketFileId path w))).
            doc_id d \<noteq> fileId)
       \<and> bucket (snd (deleteFile e fileId bucketFileId path w)) bucketFileId = None
       \<and> calls (snd (deleteFile e fileId bucketFileId path w))
           = calls w @ [DeleteDocument fileId, DeleteFile bucketFileId]"
  using assms
  by (cases "deleteDocument_error e"; cases "deleteFile_error e")
     (simp_all add: action_defs)

text \<open>The deletion of the document and the file that the upload of \<^verbatim>\<open>a.txt\<close> created.\<close>

theorem deleteFile_success_removes_both_witness:
  "document_a_txt \<in> set (filesCollection world_uploaded)
   \<and> doc_id document_a_txt = ''d1'' \<and> doc_bucketFileId document_a_txt = ''b1''
   \<and> bucket world_uploaded ''b1'' = Some file_a_txt
   \<and> fst (deleteFile env_ok ''d1'' ''b1'' ''/documents'' world_uploaded) = Inr ''success''
   \<and> filesCollection (snd (deleteFile env_ok ''d1'' ''b1'' ''/documents'' world_uploaded)) = []
   \<and> bucket (snd (deleteFile env_ok ''d1'' ''b1'' ''/documents'' world_uploaded)) ''b1'' = None"
proof -
  have r: "fst (deleteFile env_ok ''d1'' ''b1'' ''/documents'' world_uploaded) = Inr ''success''"
    by (simp add: action_defs env_ok_def)
  have f: "filesCollection (snd (deleteFile env_ok ''d1'' ''b1'' ''/documents'' world_uploaded)) = []"
    by (simp add: action_defs env_ok_def world_uploaded_eq document_a_txt_def)
  from deleteFile_success_removes_both [OF r] r f show ?thesis
    by (simp add: world_uploaded_eq document_a_txt_def)
qed

text \<open>
  C10. When the deletion of the document fails, \<^verbatim>\<open>deleteFile\<close> throws that
  error having issued no other call: the bucket and the collection are as they
  were. When the deletion of the document succeeds, the deletion of the file is
  issued after it.
\<close>

theorem deleteFile_database_first:
  "(deleteDocument_error e = Some err \<longrightarrow>
      fst (deleteFile e fileId bucketFileId path w) = Inl err
      \<and> calls (snd (deleteFile e fileId bucketFileId path w)) = calls w @ [DeleteDocument fileId]
      \<and> bucket (snd (deleteFile e fileId bucketFileId path w)) = bucket w
      \<and> filesCollection (snd (deleteFile e fileId bucketFileId path w)) = filesCollection w)
   \<and> (deleteDocument_error e = None \<longrightarrow>
      calls (snd (deleteFile e fileId bucketFileId path w))
        = calls w @ [DeleteDocument fileId, DeleteFile bucketFileId])"
  by (cases "deleteDocument_error e"; cases "deleteFile_error e")
     (simp_all add: action_defs)

text \<open>The database refuses to delete the document of \<^verbatim>\<open>a.txt\<close>: the file stays.\<close>

theorem deleteFile_database_first_witness:
  "deleteDocument_error env_delete_rejected = Some (Error ''document_not_found'')
   \<and> fst (deleteFile env_delete_rejected ''d1'' ''b1'' ''/documents'' world_uploaded)
       = Inl (Error ''document_not_found'')
   \<and> bucket (snd (deleteFile env_delete_rejected ''d1'' ''b1'' ''/documents'' world_uploaded)) ''b1''
       = Some file_a_txt
   \<and> filesCollection (snd (deleteFile env_delete_rejected ''d1'' ''b1'' ''/documents'' world_uploaded))
       = [document_a_txt]"
  using deleteFile_database_first [of env_delete_rejected "Error ''document_not_found''"
      "''d1''" "''b1''" "''/documents''" world_uploaded]
  by (simp add: env_delete_rejected_def env_ok_def world_uploaded_eq)

subsection \<open>The usage summary\<close>

text \<open>
  The addition of the source is exact as long as the sum stays below \<open>2 ^ 53\<close>.
\<close>

lemma js_add_exact:
  assumes "a + b < 2 ^ 53"
  shows "js_add (Number a) (Number b) = Number (a + b)"
proof -
  have "(2::nat) ^ 53 \<le> 2 ^ 1024" by (rule power_increasing) simp_all
  with assms have "a + b < 2 ^ 1024" by simp
  with assms show ?thesis by (simp add: js_add_def round_to_double_def)
qed

text \<open>Above \<open>2 ^ 53\<close> a sum is rounded to the nearest double, ties to even.\<close>

lemma round_to_double_above:
  "round_to_double (2 ^ 53 + 1) = 2 ^ 53"
  "round_to_double (2 ^ 53 + 2) = 2 ^ 53 + 2"
  "round_to_double (2 ^ 53 + 3) = 2 ^ 53 + 4"
  by (simp_all add: round_to_double_def bit_length.simps Let_def)

text \<open>One step of the loop, attribute by attribute.\<close>

lemma accumulate_used:
  "ts_used (accumulate Date d z) = js_add (ts_used z) (Number (doc_size d))"
  by (simp add: accumulate_def Let_def)

lemma accumulate_all: "ts_all (accumulate Date d z) = ts_all z"
  by (simp add: accumulate_def Let_def)

lemma accumulate_entry_other:
  "t \<noteq> doc_type d \<Longrightarrow> ts_entry (accumulate Date d z) t = ts_entry z t"
  by (simp add: accumulate_def Let_def)

lemma accumulate_size:
  "cu_size (ts_entry (accumulate Date d z) (doc_type d))
     = js_add (cu_size (ts_entry z (doc_type d))) (Number (doc_size d))"
  by (simp add: accumulate_def Let_def)

lemma accumulate_latestDate:
  "cu_latestDate (ts_entry (accumulate Date d z) (doc_type d))
     = (if cu_latestDate (ts_entry z (doc_type d)) = []
           \<or> date_greater Date (doc_updatedAt d) (cu_latestDate (ts_entry z (doc_type d)))
        then doc_updatedAt d
        else cu_latestDate (ts_entry z (doc_type d)))"
  by (simp add: accumulate_def Let_def)

lemma date_greater_iff:
  "date_greater Date a b \<longleftrightarrow> (\<exists>x y. Date a = Some x \<and> Date b = Some y \<and> y < x)"
  by (auto simp add: date_greater_def split: option.splits)

text \<open>
  The replacement of the latest date commutes on timestamps that are valid dates and
  of which no two denote the same instant: the later of the two stays. With the
  exact sums this gives the summary of a permuted list.
\<close>

lemma later_commute:
  fixes Date :: "string \<Rightarrow> int option"
  assumes inj: "inj_on Date T"
    and valid: "\<forall>t \<in> T. t \<noteq> [] \<and> Date t \<noteq> None"
    and a: "a \<in> T" and b: "b \<in> T" and l: "l = [] \<or> l \<in> T"
  defines "m \<equiv> \<lambda>cur t. if cur = [] \<or> date_greater Date t cur then t else cur"
  shows "m (m l a) b = m (m l b) a"
proof -
  obtain x where x: "Date a = Some x" using valid a by auto
  obtain y where y: "Date b = Some y" using valid b by auto
  have ne: "a \<noteq> []" "b \<noteq> []" using valid a b by auto
  have eq: "a = b" if "x = y"
    using inj_onD [OF inj _ a b] x y that by simp
  show ?thesis
  proof (cases "l = []")
    case True
    then show ?thesis using x y ne eq by (auto simp add: m_def date_greater_def)
  next
    case False
    then have lT: "l \<in> T" using l by simp
    then obtain z where z: "Date l = Some z" using valid by auto
    have eqa: "a = l" if "x = z"
      using inj_onD [OF inj _ a lT] x z that by simp
    have eqb: "b = l" if "y = z"
      using inj_onD [OF inj _ b lT] y z that by simp
    show ?thesis using False x y z ne eq eqa eqb
      by (auto simp add: m_def date_greater_def)
  qed
qed

lemma fold_accumulate_used:
  assumes "ts_used z = Number u" and "u + sum_list (map doc_size docs) < 2 ^ 53"
  shows "ts_used (fold (accumulate Date) docs z) = Number (u + sum_list (map doc_size docs))"
  using assms
proof (induction docs arbitrary: z u)
  case Nil
  then show ?case by simp
next
  case (Cons d docs)
  from Cons.prems have b: "u + doc_size d < 2 ^ 53" by simp
  have "ts_used (accumulate Date d z) = Number (u + doc_size d)"
    using Cons.prems(1) js_add_exact [OF b] by (simp add: accumulate_used)
  from Cons.IH [OF this] Cons.prems(2) show ?case by (simp add: add.assoc)
qed

lemma fold_accumulate_all: "ts_all (fold (accumulate Date) docs z) = ts_all z"
  by (induction docs arbitrary: z) (simp_all add: accumulate_all)

lemma fold_accumulate_size:
  assumes "cu_size (ts_entry z t) = Number u"
    and "u + sum_list (map doc_size (filter (\<lambda>d. doc_type d = t) docs)) < 2 ^ 53"
  shows "cu_size (ts_entry (fold (accumulate Date) docs z) t)
     = Number (u + sum_list (map doc_size (filter (\<lambda>d. doc_type d = t) docs)))"
  using assms
proof (induction docs arbitrary: z u)
  case Nil
  then show ?case by simp
next
  case (Cons d docs)
  show ?case
  proof (cases "doc_type d = t")
    case True
    from Cons.prems True have b: "u + doc_size d < 2 ^ 53" by simp
    have "cu_size (ts_entry (accumulate Date d z) t) = Number (u + doc_size d)"
      using Cons.prems(1) True js_add_exact [OF b] accumulate_size [of Date d z] by simp
    from Cons.IH [OF this] Cons.prems(2) True show ?thesis by (simp add: add.assoc)
  next
    case False
    then have "cu_size (ts_entry (accumulate Date d z) t) = Number u"
      using Cons.prems(1) by (simp add: accumulate_entry_other)
    from Cons.IH [OF this] Cons.prems(2) False show ?thesis by simp
  qed
qed

lemma fold_accumulate_latestDate:
  "cu_latestDate (ts_entry (fold (accumulate Date) docs z) t)
     = fold (\<lambda>d l. if doc_type d = t
                   then (if l = [] \<or> date_greater Date (doc_updatedAt d) l
                         then doc_updatedAt d else l)
                   else l)
         docs (cu_latestDate (ts_entry z t))"
proof (induction docs arbitrary: z)
  case Nil
  show ?case by simp
next
  case (Cons d docs)
  show ?case
  proof (cases "doc_type d = t")
    case True
    then show ?thesis using Cons [of "accumulate Date d z"] accumulate_latestDate [of Date d z]
      by simp
  next
    case False
    then show ?thesis using Cons [of "accumulate Date d z"]
      by (simp add: accumulate_entry_other)
  qed
qed

lemma latestDate_permuted:
  assumes valid: "\<forall>d \<in> set docs. doc_updatedAt d \<noteq> [] \<and> Date (doc_updatedAt d) \<noteq> None"
    and inj: "inj_on Date (doc_updatedAt ` set docs)"
    and perm: "mset docs' = mset docs"
  shows "cu_latestDate (ts_entry (summarize Date docs') t)
       = cu_latestDate (ts_entry (summarize Date docs) t)"
proof -
  let ?T = "doc_updatedAt ` set docs"
  let ?f = "\<lambda>d l. if doc_type d = t
                   then (if l = [] \<or> date_greater Date (doc_updatedAt d) l
                         then doc_updatedAt d else l)
                   else l"
  let ?P = "\<lambda>l. l = [] \<or> l \<in> ?T"
  have s: "set docs' = set docs" using perm by (rule mset_eq_setD)
  have v: "\<forall>t \<in> ?T. t \<noteq> [] \<and> Date t \<noteq> None" using valid by auto
  have "fold ?f docs' [] = fold ?f docs []"
  proof (rule fold_permuted_eq [where P = ?P])
    show "mset docs' = mset docs" by (rule perm)
    show "?P []" by simp
    show "?P (?f x l)" if "x \<in> set docs'" and "?P l" for x l
      using that s by auto
    show "?f x (?f y l) = ?f y (?f x l)" if "x \<in> set docs'" and "y \<in> set docs'" and "?P l"
      for x y l
    proof (cases "doc_type x = t \<and> doc_type y = t")
      case True
      then have tx: "doc_type x = t" and ty: "doc_type y = t" by simp_all
      have "doc_updatedAt x \<in> ?T" "doc_updatedAt y \<in> ?T" using that s by auto
      from later_commute [OF inj v this(2) this(1) that(3)] show ?thesis
        by (simp only: tx ty refl if_True)
    next
      case False
      then show ?thesis by auto
    qed
  qed
  then show ?thesis
    by (simp add: summarize_def fold_accumulate_latestDate totalSpace_initial_def)
qed

lemma sum_list_filter_permuted:
  fixes f :: "'a \<Rightarrow> nat"
  assumes "mset xs = mset ys"
  shows "sum_list (map f (filter P xs)) = sum_list (map f (filter P ys))"
proof -
  have "mset (map f (filter P xs)) = mset (map f (filter P ys))"
    using assms by (metis mset_filter mset_map)
  then show ?thesis by (metis sum_mset_sum_list)
qed

lemma sum_list_filter_le:
  fixes f :: "'a \<Rightarrow> nat"
  shows "sum_list (map f (filter P xs)) \<le> sum_list (map f xs)"
  by (induction xs) auto

lemma summarize_used:
  assumes "sum_list (map doc_size docs) < 2 ^ 53"
  shows "ts_used (summarize Date docs) = Number (sum_list (map doc_size docs))"
  using fold_accumulate_used [of totalSpace_initial 0 docs Date] assms
  by (simp add: summarize_def totalSpace_initial_def)

lemma summarize_size:
  assumes "sum_list (map doc_size docs) < 2 ^ 53"
  shows "cu_size (ts_entry (summarize Date docs) t)
     = Number (sum_list (map doc_size (filter (\<lambda>d. doc_type d = t) docs)))"
proof -
  have "sum_list (map doc_size (filter (\<lambda>d. doc_type d = t) docs)) < 2 ^ 53"
    using assms sum_list_filter_le [of doc_size "\<lambda>d. doc_type d = t" docs] by simp
  then show ?thesis
    using fold_accumulate_size [of totalSpace_initial t 0 docs Date]
    by (simp add: summarize_def totalSpace_initial_def)
qed

lemma summarize_permuted:
  assumes valid: "\<forall>d \<in> set docs. doc_updatedAt d \<noteq> [] \<and> Date (doc_updatedAt d) \<noteq> None"
    and inj: "inj_on Date (doc_updatedAt ` set docs)"
    and bound: "sum_list (map doc_size docs) < 2 ^ 53"
    and perm: "mset docs' = mset docs"
  shows "summarize Date docs' = summarize Date docs"
proof (rule totalSpace.equality)
  have sums: "sum_list (map doc_size docs') = sum_list (map doc_size docs)"
    using sum_list_filter_permuted [OF perm, of doc_size "\<lambda>_. True"] by simp
  then have bound': "sum_list (map doc_size docs') < 2 ^ 53" using bound by simp
  show "ts_used (summarize Date docs') = ts_used (summarize Date docs)"
    using sums by (simp add: summarize_used [OF bound] summarize_used [OF bound'])
  show "ts_all (summarize Date docs') = ts_all (summarize Date docs)"
    by (simp add: summarize_def fold_accumulate_all)
  show "totalSpace.more (summarize Date docs') = totalSpace.more (summarize Date docs)"
    by simp
  show "ts_entry (summarize Date docs') = ts_entry (summarize Date docs)"
  proof
    fix t
    have "cu_size (ts_entry (summarize Date docs') t) = cu_size (ts_entry (summarize Date docs) t)"
      using sum_list_filter_permuted [OF perm, of doc_size "\<lambda>d. doc_type d = t"]
      by (simp add: summarize_size [OF bound] summarize_size [OF bound'])
    moreover have "cu_latestDate (ts_entry (summarize Date docs') t)
        = cu_latestDate (ts_entry (summarize Date docs) t)"
      using valid inj perm by (rule latestDate_permuted)
    ultimately show "ts_entry (summarize Date docs') t = ts_entry (summarize Date docs) t"
      by (simp add: category_usage.equality)
  qed
qed

lemma summarize_snoc: "summarize Date (docs @ [d]) = accumulate Date d (summarize Date docs)"
  by (simp add: summarize_def)

text \<open>
  C7. The summary of the empty list has size 0 and an empty latest date for every
  type, 0 bytes used and the capacity of 2 GiB. Each document adds its size to the
  bytes used and to the size of its type, replaces the latest date of its type when
  that date is empty or when its own modification date is strictly later, and leaves
  the other types as they were. The lists that the action receives hold the documents
  of one user as the store returns them: the modification timestamps are those the
  store assigned, valid dates written in one format, so that different timestamps
  denote different instants, and the sizes are byte counts whose sum is far below
  \<open>2 ^ 53\<close>. For such a list the bytes used are the sum of the sizes, the size of a
  type is the sum of the sizes of the documents of that type, and the summary of
  every permutation of the list is the same.
\<close>

theorem summarize_order_independent:
  "summarize Date [] =
     \<lparr>ts_entry = (\<lambda>_. \<lparr>cu_size = Number 0, cu_latestDate = ''''\<rparr>), ts_used = Number 0,
      ts_all = Number 2147483648\<rparr>
   \<and> ts_used (summarize Date (docs @ [d]))
       = js_add (ts_used (summarize Date docs)) (Number (doc_size d))
   \<and> cu_size (ts_entry (summarize Date (docs @ [d])) (doc_type d))
       = js_add (cu_size (ts_entry (summarize Date docs) (doc_type d))) (Number (doc_size d))
   \<and> cu_latestDate (ts_entry (summarize Date (docs @ [d])) (doc_type d))
       = (if cu_latestDate (ts_entry (summarize Date docs) (doc_type d)) = []
             \<or> (\<exists>x y. Date (doc_updatedAt d) = Some x
                    \<and> Date (cu_latestDate (ts_entry (summarize Date docs) (doc_type d))) = Some y
                    \<and> y < x)
          then doc_updatedAt d
          else cu_latestDate (ts_entry (summarize Date docs) (doc_type d)))
   \<and> (t \<noteq> doc_type d \<longrightarrow>
        ts_entry (summarize Date (docs @ [d])) t = ts_entry (summarize Date docs) t)
   \<and> (sum_list (map doc_size docs) < 2 ^ 53 \<longrightarrow>
        ts_used (summarize Date docs) = Number (sum_list (map doc_size docs))
        \<and> cu_size (ts_entry (summarize Date docs) t)
            = Number (sum_list (map doc_size (filter (\<lambda>d. doc_type d = t) docs))))
   \<and> ((\<forall>d \<in> set docs. doc_updatedAt d \<noteq> [] \<and> Date (doc_updatedAt d) \<noteq> None) \<longrightarrow>
       inj_on Date (doc_updatedAt ` set docs) \<longrightarrow>
       sum_list (map doc_size docs) < 2 ^ 53 \<longrightarrow>
       mset docs' = mset docs \<longrightarrow>
       summarize Date docs' = summarize Date docs)"
proof (intro conjI impI)
  show "summarize Date [] =
     \<lparr>ts_entry = (\<lambda>_. \<lparr>cu_size = Number 0, cu_latestDate = ''''\<rparr>), ts_used = Number 0,
      ts_all = Number 2147483648\<rparr>"
    by (simp add: summarize_def totalSpace_initial_def)
  show "ts_used (summarize Date (docs @ [d]))
       = js_add (ts_used (summarize Date docs)) (Number (doc_size d))"
    by (simp only: summarize_snoc accumulate_used)
  show "cu_size (ts_entry (summarize Date (docs @ [d])) (doc_type d))
       = js_add (cu_size (ts_entry (summarize Date docs) (doc_type d))) (Number (doc_size d))"
    by (simp only: summarize_snoc accumulate_size)
  show "cu_latestDate (ts_entry (summarize Date (docs @ [d])) (doc_type d))
       = (if cu_latestDate (ts_entry (summarize Date docs) (doc_type d)) = []
             \<or> (\<exists>x y. Date (doc_updatedAt d) = Some x
                    \<and> Date (cu_latestDate (ts_entry (summarize Date docs) (doc_type d))) = Some y
                    \<and> y < x)
          then doc_updatedAt d
          else cu_latestDate (ts_entry (summarize Date docs) (doc_type d)))"
    by (simp only: summarize_snoc accumulate_latestDate date_greater_iff)
  show "ts_entry (summarize Date (docs @ [d])) t = ts_entry (summarize Date docs) t"
    if "t \<noteq> doc_type d"
    using that by (simp add: summarize_snoc accumulate_entry_other)
  show "ts_used (summarize Date docs) = Number (sum_list (map doc_size docs))"
    if "sum_list (map doc_size docs) < 2 ^ 53"
    using that by (rule summarize_used)
  show "cu_size (ts_entry (summarize Date docs) t)
            = Number (sum_list (map doc_size (filter (\<lambda>d. doc_type d = t) docs)))"
    if "sum_list (map doc_size docs) < 2 ^ 53"
    using that by (rule summarize_size)
  show "summarize Date docs' = summarize Date docs"
    if "\<forall>d \<in> set docs. doc_updatedAt d \<noteq> [] \<and> Date (doc_updatedAt d) \<noteq> None"
      and "inj_on Date (doc_updatedAt ` set docs)"
      and "sum_list (map doc_size docs) < 2 ^ 53" and "mset docs' = mset docs"
    using that by (rule summarize_permuted)
qed

text \<open>Two documents of the same type, modified on different days, in both orders.\<close>

theorem summarize_order_independent_witness:
  "Date_sample (doc_updatedAt document_a_txt) = Some 1730801730123
   \<and> Date_sample (doc_updatedAt document_b_txt) = Some 1730880000000
   \<and> sum_list (map doc_size [document_a_txt, document_b_txt]) = 15
   \<and> mset [document_b_txt, document_a_txt] = mset [document_a_txt, document_b_txt]
   \<and> summarize Date_sample [document_b_txt, document_a_txt]
       = summarize Date_sample [document_a_txt, document_b_txt]
   \<and> ts_entry (summarize Date_sample [document_a_txt, document_b_txt]) Document
       = \<lparr>cu_size = Number 15, cu_latestDate = ''2024-11-06T08:00:00.000+00:00''\<rparr>
   \<and> ts_used (summarize Date_sample [document_a_txt, document_b_txt]) = Number 15"
proof -
  have v: "\<forall>d \<in> set [document_a_txt, document_b_txt].
       doc_updatedAt d \<noteq> [] \<and> Date_sample (doc_updatedAt d) \<noteq> None"
    by (simp add: document_a_txt_def document_b_txt_def Date_sample_def)
  have i: "inj_on Date_sample (doc_updatedAt ` set [document_a_txt, document_b_txt])"
    by (simp add: document_a_txt_def document_b_txt_def Date_sample_def)
  have z: "sum_list (map doc_size [document_a_txt, document_b_txt]) = 15"
    by (simp add: document_a_txt_def document_b_txt_def)
  then have b: "sum_list (map doc_size [document_a_txt, document_b_txt]) < 2 ^ 53"
    by simp
  have p: "mset [document_b_txt, document_a_txt] = mset [document_a_txt, document_b_txt]"
    by (simp add: add_mset_commute)
  have a: "Date_sample (doc_updatedAt document_a_txt) = Some 1730801730123"
    and c: "Date_sample (doc_updatedAt document_b_txt) = Some 1730880000000"
    by (simp_all add: document_a_txt_def document_b_txt_def Date_sample_def)
  note t = summarize_order_independent [of Date_sample "[document_a_txt, document_b_txt]"
      document_b_txt Document "[document_b_txt, document_a_txt]"]
  from t v i b p have q: "summarize Date_sample [document_b_txt, document_a_txt]
       = summarize Date_sample [document_a_txt, document_b_txt]"
    by blast
  from t b have "ts_used (summarize Date_sample [document_a_txt, document_b_txt])
      = Number (sum_list (map doc_size [document_a_txt, document_b_txt]))"
    by blast
  then have u: "ts_used (summarize Date_sample [document_a_txt, document_b_txt]) = Number 15"
    by (simp only: z)
  have e: "ts_entry (summarize Date_sample [document_a_txt, document_b_txt]) Document
       = \<lparr>cu_size = Number 15, cu_latestDate = ''2024-11-06T08:00:00.000+00:00''\<rparr>"
    by (simp add: summarize_def totalSpace_initial_def accumulate_def Let_def date_greater_def
        js_add_def round_to_double_def
        document_a_txt_def document_b_txt_def Date_sample_def)
  from a c z p q e u show ?thesis by (intro conjI)
qed

end
